theory Spec2Isabelle
  imports Complex_Main
begin

text \<open>
  The image processor prepares logos and headshots on an HTML canvas. The model follows
  these functions of the repository:
  \<^item> \<open>processLogo\<close>, \<open>createRectangularLogo\<close>, \<open>createSquareLogo\<close>, \<open>createIcoFromSquare\<close>
    in their latest revision (transparent flag, snapping to 5:2; file \<open>unnamed/part_000\<close>)
    and in their first revision (file \<open>unnamed/part_001\<close>; names suffixed \<open>_v1\<close>);
  \<^item> \<open>processHeadshot\<close>, \<open>createHeadshot\<close> in the revision that fits with \<open>Math.ceil\<close>
    (file \<open>unnamed/part_002\<close>) and \<open>createHeadshot\<close> in the earlier revision stored after
    \<open>utils/CropperComponent.js\<close> (\<open>createHeadshot_v1\<close>);
  \<^item> \<open>removeBackground\<close> of \<open>utils/imageManipulation.js\<close>.
\<close>

section \<open>JavaScript numbers\<close>

text \<open>
  The geometry code computes with JavaScript numbers: \<open>/\<close>, \<open>*\<close>, \<open>-\<close>,
  \<open>Math.ceil\<close>, \<open>Math.round\<close>, \<open>Math.floor\<close>, \<open>Math.max\<close>, \<open>Math.min\<close>,
  \<open>Math.abs\<close>, \<open>%\<close> and the comparisons. A number is modelled as an exact rational or
  one of the three special values \<open>Infinity\<close>, \<open>-Infinity\<close>, \<open>NaN\<close>, so that a division
  by zero is a value of the model as it is a value of the program. Finite arithmetic is
  exact (no rounding to 53 bits) and the sign of a zero is not tracked.
\<close>

datatype jsnum = JNum rat | JInf | JNegInf | JNaN

abbreviation jint :: "int \<Rightarrow> jsnum" where
  "jint i \<equiv> JNum (of_int i)"

abbreviation jnat :: "nat \<Rightarrow> jsnum" where
  "jnat n \<equiv> JNum (of_nat n)"

fun js_div :: "jsnum \<Rightarrow> jsnum \<Rightarrow> jsnum" where
  "js_div JNaN _ = JNaN"
| "js_div _ JNaN = JNaN"
| "js_div (JNum a) (JNum b) =
     (if b = 0 then (if 0 < a then JInf else if a < 0 then JNegInf else JNaN)
      else JNum (a / b))"
| "js_div (JNum a) JInf = JNum 0"
| "js_div (JNum a) JNegInf = JNum 0"
| "js_div JInf (JNum b) = (if 0 \<le> b then JInf else JNegInf)"
| "js_div JNegInf (JNum b) = (if 0 \<le> b then JNegInf else JInf)"
| "js_div JInf JInf = JNaN"
| "js_div JInf JNegInf = JNaN"
| "js_div JNegInf JInf = JNaN"
| "js_div JNegInf JNegInf = JNaN"

fun js_mul :: "jsnum \<Rightarrow> jsnum \<Rightarrow> jsnum" where
  "js_mul JNaN _ = JNaN"
| "js_mul _ JNaN = JNaN"
| "js_mul (JNum a) (JNum b) = JNum (a * b)"
| "js_mul (JNum a) JInf = (if 0 < a then JInf else if a < 0 then JNegInf else JNaN)"
| "js_mul (JNum a) JNegInf = (if 0 < a then JNegInf else if a < 0 then JInf else JNaN)"
| "js_mul JInf (JNum b) = (if 0 < b then JInf else if b < 0 then JNegInf else JNaN)"
| "js_mul JNegInf (JNum b) = (if 0 < b then JNegInf else if b < 0 then JInf else JNaN)"
| "js_mul JInf JInf = JInf"
| "js_mul JInf JNegInf = JNegInf"
| "js_mul JNegInf JInf = JNegInf"
| "js_mul JNegInf JNegInf = JInf"


fun js_sub :: "jsnum \<Rightarrow> jsnum \<Rightarrow> jsnum" where
  "js_sub JNaN _ = JNaN"
| "js_sub _ JNaN = JNaN"
| "js_sub (JNum a) (JNum b) = JNum (a - b)"
| "js_sub (JNum a) JInf = JNegInf"
| "js_sub (JNum a) JNegInf = JInf"
| "js_sub JInf (JNum b) = JInf"
| "js_sub JNegInf (JNum b) = JNegInf"
| "js_sub JInf JInf = JNaN"
| "js_sub JInf JNegInf = JInf"
| "js_sub JNegInf JInf = JNegInf"
| "js_sub JNegInf JNegInf = JNaN"

text \<open>\<open>a < b\<close>; every comparison with \<open>NaN\<close> is false.\<close>

fun js_lt :: "jsnum \<Rightarrow> jsnum \<Rightarrow> bool" where
  "js_lt JNaN _ = False"
| "js_lt _ JNaN = False"
| "js_lt (JNum a) (JNum b) = (a < b)"
| "js_lt (JNum a) JInf = True"
| "js_lt (JNum a) JNegInf = False"
| "js_lt JInf _ = False"
| "js_lt JNegInf (JNum b) = True"
| "js_lt JNegInf JInf = True"
| "js_lt JNegInf JNegInf = False"

definition js_gt :: "jsnum \<Rightarrow> jsnum \<Rightarrow> bool" where
  "js_gt a b = js_lt b a"

text \<open>\<open>a === b\<close> on numbers: \<open>NaN\<close> equals nothing, itself included.\<close>

fun js_eq :: "jsnum \<Rightarrow> jsnum \<Rightarrow> bool" where
  "js_eq JNaN _ = False"
| "js_eq _ JNaN = False"
| "js_eq a b = (a = b)"

fun js_ceil :: "jsnum \<Rightarrow> jsnum" where
  "js_ceil (JNum a) = jint \<lceil>a\<rceil>"
| "js_ceil x = x"

fun js_floor :: "jsnum \<Rightarrow> jsnum" where
  "js_floor (JNum a) = jint \<lfloor>a\<rfloor>"
| "js_floor x = x"

text \<open>\<open>Math.round\<close> rounds a tie towards \<open>+Infinity\<close>: it is \<open>floor (x + 1/2)\<close>.\<close>

fun js_round :: "jsnum \<Rightarrow> jsnum" where
  "js_round (JNum a) = jint \<lfloor>a + 1 / 2\<rfloor>"
| "js_round x = x"

fun js_abs :: "jsnum \<Rightarrow> jsnum" where
  "js_abs (JNum a) = JNum \<bar>a\<bar>"
| "js_abs JNaN = JNaN"
| "js_abs x = JInf"

text \<open>\<open>Math.max\<close> and \<open>Math.min\<close> of two numbers: \<open>NaN\<close> if either is.\<close>

fun js_max :: "jsnum \<Rightarrow> jsnum \<Rightarrow> jsnum" where
  "js_max JNaN _ = JNaN"
| "js_max _ JNaN = JNaN"
| "js_max a b = (if js_lt a b then b else a)"

fun js_min :: "jsnum \<Rightarrow> jsnum \<Rightarrow> jsnum" where
  "js_min JNaN _ = JNaN"
| "js_min _ JNaN = JNaN"
| "js_min a b = (if js_lt b a then b else a)"

text \<open>
  \<open>a % b\<close>: the remainder has the sign of the dividend, \<open>a - b * trunc (a / b)\<close>; it
  is \<open>NaN\<close> for an infinite dividend or a zero divisor, and \<open>a\<close> for an infinite divisor.
\<close>

fun js_mod :: "jsnum \<Rightarrow> jsnum \<Rightarrow> jsnum" where
  "js_mod JNaN _ = JNaN"
| "js_mod _ JNaN = JNaN"
| "js_mod (JNum a) (JNum b) =
     (if b = 0 then JNaN
      else JNum (a - b * of_int (if 0 \<le> a / b then \<lfloor>a / b\<rfloor> else \<lceil>a / b\<rceil>)))"
| "js_mod (JNum a) _ = JNum a"
| "js_mod _ _ = JNaN"

section \<open>Images and canvases\<close>

text \<open>
  An \<open>HTMLImageElement\<close> is used through its \<open>width\<close> and \<open>height\<close> (unsigned
  integers in the DOM) and, by the colour keyer, through its pixels: the RGBA bytes that
  \<open>getImageData\<close> returns, four per pixel, row by row.
\<close>

record image =
  img_width :: nat
  img_height :: nat
  img_data :: "nat list"

text \<open>
  A canvas is its \<open>width\<close> and \<open>height\<close> (the numbers the code assigns) and the
  drawing calls made on its context, in order. \<open>drawImage\<close> with three arguments draws the
  source at its own size; with five it draws the source scaled into a destination
  rectangle; with nine it draws a source rectangle scaled into a destination rectangle.
  \<open>toDataURL\<close> is left out: the encoded result is represented by the canvas it encodes.
\<close>

datatype colour = White

datatype canvas = Canvas (cv_width: jsnum) (cv_height: jsnum) (cv_ops: "draw_op list")
and draw_op =
    FillRect colour jsnum jsnum jsnum jsnum
  | ClearRect jsnum jsnum jsnum jsnum
  | DrawImage image jsnum jsnum
  | DrawImageScaled image jsnum jsnum jsnum jsnum
  | DrawCanvasScaled canvas jsnum jsnum jsnum jsnum jsnum jsnum jsnum jsnum

section \<open>Headshot (\<open>createHeadshot\<close>, ceiling-based revision)\<close>

text \<open>
  The ratio fit of \<open>createHeadshot\<close>: the canvas that contains the source at the target
  ratio, each derived side rounded up.
\<close>

definition headshot_base :: "jsnum \<Rightarrow> jsnum \<Rightarrow> jsnum \<times> jsnum \<Rightarrow> jsnum \<times> jsnum" where
  "headshot_base origWidth origHeight targetRatio =
     (let targetAspect = js_div (fst targetRatio) (snd targetRatio);
          currentRatio = js_div origWidth origHeight
      in if js_gt currentRatio targetAspect
         then (origWidth, js_ceil (js_div (js_mul origWidth (snd targetRatio)) (fst targetRatio)))
         else (js_ceil (js_div (js_mul origHeight (fst targetRatio)) (snd targetRatio)), origHeight))"

text \<open>
  The body of \<open>if (newWidth < minWidth || newHeight < minHeight)\<close>: the side with the
  larger scale factor is set to its minimum and the other derived, both are raised to
  their minimums, and a ratio that is off by more than \<open>0.0001\<close> is adjusted once more.
\<close>

definition headshot_min :: "jsnum \<Rightarrow> jsnum \<Rightarrow> jsnum \<Rightarrow> jsnum \<Rightarrow> jsnum \<times> jsnum \<Rightarrow> jsnum \<times> jsnum" where
  "headshot_min newWidth0 newHeight0 minWidth minHeight targetRatio =
     (let widthScale = js_div minWidth newWidth0;
          heightScale = js_div minHeight newHeight0;
          (newWidth1, newHeight1) =
            (if js_gt widthScale heightScale
             then (minWidth, js_ceil (js_div (js_mul minWidth (snd targetRatio)) (fst targetRatio)))
             else (js_ceil (js_div (js_mul minHeight (fst targetRatio)) (snd targetRatio)), minHeight));
          newWidth2 = (if js_lt newWidth1 minWidth then minWidth else newWidth1);
          newHeight2 = (if js_lt newHeight1 minHeight then minHeight else newHeight1);
          actualRatio = js_div newWidth2 newHeight2;
          targetAspectRatio = js_div (fst targetRatio) (snd targetRatio)
      in if js_gt (js_abs (js_sub actualRatio targetAspectRatio)) (JNum (1 / 10000))
         then (if js_gt (js_div newWidth2 minWidth) (js_div newHeight2 minHeight)
               then (js_ceil (js_mul newHeight2 targetAspectRatio), newHeight2)
               else (newWidth2, js_ceil (js_div newWidth2 targetAspectRatio)))
         else (newWidth2, newHeight2))"

definition headshot_fit :: "jsnum \<Rightarrow> jsnum \<Rightarrow> jsnum \<Rightarrow> jsnum \<Rightarrow> jsnum \<times> jsnum \<Rightarrow> jsnum \<times> jsnum" where
  "headshot_fit origWidth origHeight minWidth minHeight targetRatio =
     (let (newWidth, newHeight) = headshot_base origWidth origHeight targetRatio
      in if js_lt newWidth minWidth \<or> js_lt newHeight minHeight
         then headshot_min newWidth newHeight minWidth minHeight targetRatio
         else (newWidth, newHeight))"

definition createHeadshot :: "image \<Rightarrow> jsnum \<Rightarrow> jsnum \<Rightarrow> jsnum \<times> jsnum \<Rightarrow> canvas" where
  "createHeadshot img minWidth minHeight targetRatio =
     (let origWidth = jnat (img_width img);
          origHeight = jnat (img_height img);
          (newWidth, newHeight) = headshot_fit origWidth origHeight minWidth minHeight targetRatio;
          x = js_floor (js_div (js_sub newWidth origWidth) (JNum 2));
          y = js_floor (js_div (js_sub newHeight origHeight) (JNum 2))
      in Canvas newWidth newHeight
           [FillRect White (JNum 0) (JNum 0) newWidth newHeight, DrawImage img x y])"

section \<open>Headshot (\<open>createHeadshot\<close>, earlier revision)\<close>




section \<open>Logo variants (\<open>createRectangularLogo\<close>, \<open>createSquareLogo\<close>, \<open>createIcoFromSquare\<close>)\<close>

text \<open>
  \<open>createRectangularLogo\<close> in its latest revision: the containing canvas at the target
  ratio with the derived side rounded up, the minimums enforced width first and height
  second, and, for the ratio \<open>2.5\<close> only, the width rounded up to a multiple of 5 and the
  height derived exactly.
\<close>

definition rect_base :: "jsnum \<Rightarrow> jsnum \<Rightarrow> jsnum \<Rightarrow> jsnum \<times> jsnum" where
  "rect_base origWidth origHeight aspectRatio =
     (let currentRatio = js_div origWidth origHeight
      in if js_gt currentRatio aspectRatio
         then (origWidth, js_ceil (js_div origWidth aspectRatio))
         else (js_ceil (js_mul origHeight aspectRatio), origHeight))"

definition rect_min :: "jsnum \<Rightarrow> jsnum \<Rightarrow> jsnum \<Rightarrow> jsnum \<Rightarrow> jsnum \<Rightarrow> jsnum \<times> jsnum" where
  "rect_min baseWidth0 baseHeight0 aspectRatio minWidth minHeight =
     (if js_lt baseWidth0 minWidth \<or> js_lt baseHeight0 minHeight
      then (let (baseWidth1, baseHeight1) =
                  (if js_lt baseWidth0 minWidth
                   then (minWidth, js_ceil (js_div minWidth aspectRatio))
                   else (baseWidth0, baseHeight0))
            in if js_lt baseHeight1 minHeight
               then (js_ceil (js_mul minHeight aspectRatio), minHeight)
               else (baseWidth1, baseHeight1))
      else (baseWidth0, baseHeight0))"

definition rect_snap :: "jsnum \<Rightarrow> jsnum \<Rightarrow> jsnum \<Rightarrow> jsnum \<times> jsnum" where
  "rect_snap baseWidth0 baseHeight0 aspectRatio =
     (if js_eq aspectRatio (JNum (5 / 2))
      then (let baseWidth1 = js_mul (js_ceil (js_div baseWidth0 (JNum 5))) (JNum 5);
                baseHeight1 = js_div (js_mul baseWidth1 (JNum 2)) (JNum 5);
                (baseWidth2, baseHeight2) =
                  (if \<not> js_eq (js_mod baseHeight1 (JNum 2)) (JNum 0)
                   then (let h = js_mul (js_ceil (js_div baseHeight1 (JNum 2))) (JNum 2)
                         in (js_div (js_mul h (JNum 5)) (JNum 2), h))
                   else (baseWidth1, baseHeight1));
                baseWidth3 = js_round baseWidth2;
                baseHeight3 = js_round baseHeight2
            in if \<not> js_eq (js_div baseWidth3 baseHeight3) (JNum (5 / 2))
               then (let units = js_max (js_ceil (js_div baseHeight3 (JNum 2)))
                                        (js_ceil (js_div baseWidth3 (JNum 5)))
                     in (js_mul (JNum 5) units, js_mul (JNum 2) units))
               else (baseWidth3, baseHeight3))
      else (baseWidth0, baseHeight0))"

definition rect_fit :: "jsnum \<Rightarrow> jsnum \<Rightarrow> jsnum \<Rightarrow> jsnum \<Rightarrow> jsnum \<Rightarrow> jsnum \<times> jsnum" where
  "rect_fit origWidth origHeight aspectRatio minWidth minHeight =
     (let (baseWidth0, baseHeight0) = rect_base origWidth origHeight aspectRatio;
          (baseWidth1, baseHeight1) = rect_min baseWidth0 baseHeight0 aspectRatio minWidth minHeight
      in rect_snap baseWidth1 baseHeight1 aspectRatio)"

text \<open>The background: \<open>clearRect\<close> when transparent, a white \<open>fillRect\<close> otherwise.\<close>

definition background :: "bool \<Rightarrow> jsnum \<Rightarrow> jsnum \<Rightarrow> draw_op" where
  "background transparent w h =
     (if transparent then ClearRect (JNum 0) (JNum 0) w h
      else FillRect White (JNum 0) (JNum 0) w h)"

definition createRectangularLogo :: "image \<Rightarrow> jsnum \<Rightarrow> jsnum \<Rightarrow> jsnum \<Rightarrow> bool \<Rightarrow> canvas" where
  "createRectangularLogo img aspectRatio minWidth minHeight transparent =
     (let origWidth = jnat (img_width img);
          origHeight = jnat (img_height img);
          (baseWidth, baseHeight) = rect_fit origWidth origHeight aspectRatio minWidth minHeight;
          x = js_floor (js_div (js_sub baseWidth origWidth) (JNum 2));
          y = js_floor (js_div (js_sub baseHeight origHeight) (JNum 2))
      in Canvas baseWidth baseHeight
           [background transparent baseWidth baseHeight, DrawImage img x y])"

text \<open>
  \<open>createRectangularLogo\<close> in its first revision: derived sides rounded to nearest, and
  both sides multiplied by one scale factor when a minimum is not met.
\<close>

definition rect_base_v1 :: "jsnum \<Rightarrow> jsnum \<Rightarrow> jsnum \<Rightarrow> jsnum \<times> jsnum" where
  "rect_base_v1 origWidth origHeight aspectRatio =
     (let currentRatio = js_div origWidth origHeight
      in if js_gt currentRatio aspectRatio
         then (origWidth, js_round (js_div origWidth aspectRatio))
         else (js_round (js_mul origHeight aspectRatio), origHeight))"

definition rect_min_v1 :: "jsnum \<Rightarrow> jsnum \<Rightarrow> jsnum \<Rightarrow> jsnum \<Rightarrow> jsnum \<times> jsnum" where
  "rect_min_v1 newWidth newHeight minWidth minHeight =
     (if js_lt newWidth minWidth \<or> js_lt newHeight minHeight
      then (let scaleFactor = js_max (js_div minWidth newWidth) (js_div minHeight newHeight)
            in (js_round (js_mul newWidth scaleFactor), js_round (js_mul newHeight scaleFactor)))
      else (newWidth, newHeight))"

definition rect_fit_v1 :: "jsnum \<Rightarrow> jsnum \<Rightarrow> jsnum \<Rightarrow> jsnum \<Rightarrow> jsnum \<Rightarrow> jsnum \<times> jsnum" where
  "rect_fit_v1 origWidth origHeight aspectRatio minWidth minHeight =
     (let (newWidth, newHeight) = rect_base_v1 origWidth origHeight aspectRatio
      in rect_min_v1 newWidth newHeight minWidth minHeight)"

definition createRectangularLogo_v1 :: "image \<Rightarrow> jsnum \<Rightarrow> jsnum \<Rightarrow> jsnum \<Rightarrow> canvas" where
  "createRectangularLogo_v1 img aspectRatio minWidth minHeight =
     (let origWidth = jnat (img_width img);
          origHeight = jnat (img_height img);
          (newWidth, newHeight) = rect_fit_v1 origWidth origHeight aspectRatio minWidth minHeight;
          x = js_floor (js_div (js_sub newWidth origWidth) (JNum 2));
          y = js_floor (js_div (js_sub newHeight origHeight) (JNum 2))
      in Canvas newWidth newHeight
           [FillRect White (JNum 0) (JNum 0) newWidth newHeight, DrawImage img x y])"

definition createSquareLogo :: "image \<Rightarrow> jsnum \<Rightarrow> bool \<Rightarrow> canvas" where
  "createSquareLogo img minSize transparent =
     (let origWidth = jnat (img_width img);
          origHeight = jnat (img_height img);
          squareSize0 = js_max origWidth origHeight;
          squareSize = (if js_lt squareSize0 minSize then minSize else squareSize0);
          x = js_floor (js_div (js_sub squareSize origWidth) (JNum 2));
          y = js_floor (js_div (js_sub squareSize origHeight) (JNum 2))
      in Canvas squareSize squareSize
           [background transparent squareSize squareSize, DrawImage img x y])"

definition createSquareLogo_v1 :: "image \<Rightarrow> jsnum \<Rightarrow> canvas" where
  "createSquareLogo_v1 img minSize =
     (let origWidth = jnat (img_width img);
          origHeight = jnat (img_height img);
          squareSize0 = js_max origWidth origHeight;
          squareSize = (if js_lt squareSize0 minSize then minSize else squareSize0);
          x = js_floor (js_div (js_sub squareSize origWidth) (JNum 2));
          y = js_floor (js_div (js_sub squareSize origHeight) (JNum 2))
      in Canvas squareSize squareSize
           [FillRect White (JNum 0) (JNum 0) squareSize squareSize, DrawImage img x y])"

text \<open>
  The favicon: a fixed square canvas of the largest listed size (\<open>Math.max\<close> of the
  list; the first revision writes 64), the source scaled by one factor to fit.
\<close>

definition js_max_list :: "jsnum list \<Rightarrow> jsnum" where
  "js_max_list xs = foldl js_max JNegInf xs"

definition ico_canvas :: "image \<Rightarrow> jsnum \<Rightarrow> bool \<Rightarrow> canvas" where
  "ico_canvas img largestSize transparent =
     (let origWidth = jnat (img_width img);
          origHeight = jnat (img_height img);
          scale = js_min (js_div largestSize origWidth) (js_div largestSize origHeight);
          scaledWidth = js_round (js_mul origWidth scale);
          scaledHeight = js_round (js_mul origHeight scale);
          x = js_floor (js_div (js_sub largestSize scaledWidth) (JNum 2));
          y = js_floor (js_div (js_sub largestSize scaledHeight) (JNum 2))
      in Canvas largestSize largestSize
           [background transparent largestSize largestSize,
            DrawImageScaled img x y scaledWidth scaledHeight])"

definition createIcoFromSquare :: "image \<Rightarrow> bool \<Rightarrow> canvas" where
  "createIcoFromSquare img transparent =
     ico_canvas img (js_max_list [JNum 40, JNum 48, JNum 64]) transparent"

definition createIcoFromSquare_v1 :: "image \<Rightarrow> canvas" where
  "createIcoFromSquare_v1 img = ico_canvas img (JNum 64) False"

section \<open>Orchestration (\<open>processLogo\<close>, \<open>processHeadshot\<close>)\<close>

text \<open>
  \<open>FileReader\<close> and \<open>Image\<close> are outside the program: their outcome is an input. The
  promise is rejected with \<open>Failed to read file\<close> or \<open>Failed to load image\<close>, or resolved
  with the result. An option that is \<open>None\<close> is a property the caller left out, which
  takes the or_default of the destructuring pattern.
\<close>

datatype upload = Unreadable | Undecodable | Decoded image

datatype error = FailedToReadFile | FailedToLoadImage

record logo_options =
  opt_aspectRatio :: "jsnum option"
  opt_minWidth :: "jsnum option"
  opt_minHeight :: "jsnum option"
  opt_square :: "bool option"
  opt_ico :: "bool option"
  opt_transparent :: "bool option"

record logo_result =
  rectangular :: canvas
  square :: "canvas option"
  ico :: "canvas option"

definition or_default :: "'a \<Rightarrow> 'a option \<Rightarrow> 'a" where
  "or_default d v = (case v of None \<Rightarrow> d | Some x \<Rightarrow> x)"

definition processLogo :: "upload \<Rightarrow> logo_options \<Rightarrow> error + logo_result" where
  "processLogo file options =
     (let aspectRatio = or_default (JNum (5 / 2)) (opt_aspectRatio options);
          minWidth = or_default (JNum 400) (opt_minWidth options);
          minHeight = or_default (JNum 160) (opt_minHeight options);
          square = or_default True (opt_square options);
          ico = or_default True (opt_ico options);
          transparent = or_default False (opt_transparent options)
      in case file of
           Unreadable \<Rightarrow> Inl FailedToReadFile
         | Undecodable \<Rightarrow> Inl FailedToLoadImage
         | Decoded img \<Rightarrow>
             Inr \<lparr>rectangular = createRectangularLogo img aspectRatio minWidth minHeight transparent,
                  square = (if square then Some (createSquareLogo img (JNum 40) transparent) else None),
                  ico = (if ico \<and> square then Some (createIcoFromSquare img transparent) else None)\<rparr>)"

definition processLogo_v1 :: "upload \<Rightarrow> logo_options \<Rightarrow> error + logo_result" where
  "processLogo_v1 file options =
     (let aspectRatio = or_default (JNum (5 / 2)) (opt_aspectRatio options);
          minWidth = or_default (JNum 400) (opt_minWidth options);
          minHeight = or_default (JNum 160) (opt_minHeight options);
          square = or_default True (opt_square options);
          ico = or_default True (opt_ico options)
      in case file of
           Unreadable \<Rightarrow> Inl FailedToReadFile
         | Undecodable \<Rightarrow> Inl FailedToLoadImage
         | Decoded img \<Rightarrow>
             Inr \<lparr>rectangular = createRectangularLogo_v1 img aspectRatio minWidth minHeight,
                  square = (if square then Some (createSquareLogo_v1 img (JNum 40)) else None),
                  ico = (if ico \<and> square then Some (createIcoFromSquare_v1 img) else None)\<rparr>)"



section \<open>Colour keying (\<open>removeBackground\<close>)\<close>






section \<open>Properties of a rendered canvas\<close>



text \<open>
  \<open>covers w h \<rho> W H\<close>: the box \<open>W x H\<close> contains the source \<open>w x h\<close>, and is wide
  and high enough for the source at ratio \<open>\<rho>\<close>. The ratio fit establishes it and the
  enforcement of the minimums keeps it.
\<close>

definition covers :: "rat \<Rightarrow> rat \<Rightarrow> rat \<Rightarrow> rat \<Rightarrow> rat \<Rightarrow> bool" where
  "covers w h \<rho> W H \<longleftrightarrow> w \<le> W \<and> h \<le> H \<and> h * \<rho> \<le> W \<and> w \<le> H * \<rho>"

section \<open>Evaluation rules\<close>

text \<open>Floor and ceiling of a quotient of numerals, and the loop of the earlier headshot.\<close>

lemma floor_rat_numeral [simp]:
  "\<lfloor>numeral a / numeral b :: rat\<rfloor> = numeral a div numeral b"
  using floor_divide_of_int_eq [of "numeral a" "numeral b", where ?'a = rat] by simp

lemma ceiling_rat_numeral [simp]:
  "\<lceil>numeral a / numeral b :: rat\<rceil> = - (- numeral a div numeral b)"
  using ceiling_divide_eq_div [of "numeral a" "numeral b", where ?'a = rat] by simp



lemmas headshot_defs =
  createHeadshot_def headshot_fit_def headshot_base_def headshot_min_def js_gt_def Let_def

lemmas logo_defs =
  createRectangularLogo_def rect_fit_def rect_base_def rect_min_def rect_snap_def
  createRectangularLogo_v1_def rect_fit_v1_def rect_base_v1_def rect_min_v1_def
  background_def js_gt_def Let_def

section \<open>Exactness of the ratio\<close>

text \<open>
  C1. The fitted canvas is claimed to satisfy \<open>canvasWidth * den = canvasHeight * num\<close>
  exactly. \<open>createHeadshot\<close> derives the height of a too-wide source with one ceiling and
  never snaps it when the minimums are already met: a 1000x1000 source under the shipped
  profile (73:100, 292x400) gets the canvas 1000x1370, and 1000 * 100 is not 1370 * 73.
\<close>

theorem headshot_1000x1000_ratio_not_exact:
  "cv_width (createHeadshot \<lparr>img_width = 1000, img_height = 1000, img_data = d\<rparr>
               (jint 292) (jint 400) (jint 73, jint 100)) = jint 1000 \<and>
   cv_height (createHeadshot \<lparr>img_width = 1000, img_height = 1000, img_data = d\<rparr>
               (jint 292) (jint 400) (jint 73, jint 100)) = jint 1370 \<and>
   (1000 :: int) * 100 \<noteq> 1370 * 73"
  by (simp add: headshot_defs)

section \<open>Minimum dimensions\<close>

text \<open>
  C2. The fitted canvas is claimed to reach both minimums. In \<open>createHeadshot\<close> the last
  ratio adjustment re-derives the height from the width after both sides were raised to
  their minimums: a 1x1 source with ratio 73:100 and minimums 292x500 gets the canvas
  292x400, whose height is below the minimum height 500.
\<close>

theorem headshot_adjust_drops_below_minimum:
  "cv_width (createHeadshot \<lparr>img_width = 1, img_height = 1, img_data = d\<rparr>
               (jint 292) (jint 500) (jint 73, jint 100)) = jint 292 \<and>
   cv_height (createHeadshot \<lparr>img_width = 1, img_height = 1, img_data = d\<rparr>
               (jint 292) (jint 500) (jint 73, jint 100)) = jint 400 \<and>
   js_lt (jint 400) (jint 500)"
  by (simp add: headshot_defs)

section \<open>Idempotence\<close>

text \<open>
  C7. Fitting the fitted canvas again is claimed to change nothing. Under the shipped
  headshot profile a 1000x1000 source is fitted to 1000x1370, and a 1000x1370 source is
  fitted to 1001x1370: the inexact ratio of the first fit makes the second fit take the
  other branch and round the width up.
\<close>

theorem headshot_refit_changes_canvas:
  "headshot_fit (jnat 1000) (jnat 1000) (jint 292) (jint 400) (jint 73, jint 100)
     = (jint 1000, jint 1370) \<and>
   headshot_fit (jnat 1000) (jnat 1370) (jint 292) (jint 400) (jint 73, jint 100)
     = (jint 1001, jint 1370) \<and>
   cv_width (createHeadshot \<lparr>img_width = 1000, img_height = 1370, img_data = d\<rparr>
               (jint 292) (jint 400) (jint 73, jint 100)) = jint 1001"
  by (simp add: headshot_defs)

section \<open>Ratio fit: worked example\<close>

text \<open>
  C9. A 50x80 source with target ratio 73:100 and minimums 292x400: the ratio-only fit
  is 59x80 (59 is the ceiling of 80 * 73 / 100), and the headshot canvas is exactly
  292x400.
\<close>

theorem headshot_50x80_canvas:
  "headshot_base (jnat 50) (jnat 80) (jint 73, jint 100) = (jint 59, jint 80) \<and>
   cv_width (createHeadshot \<lparr>img_width = 50, img_height = 80, img_data = d\<rparr>
               (jint 292) (jint 400) (jint 73, jint 100)) = jint 292 \<and>
   cv_height (createHeadshot \<lparr>img_width = 50, img_height = 80, img_data = d\<rparr>
               (jint 292) (jint 400) (jint 73, jint 100)) = jint 400"
  by (simp add: headshot_defs)

section \<open>Which logo variants are produced\<close>

text \<open>
  C10. Whenever \<open>processLogo\<close> resolves, the \<open>ico\<close> field is set only if both the
  \<open>ico\<close> and the \<open>square\<close> option hold; without \<open>square\<close> both the \<open>square\<close> and the
  \<open>ico\<close> field are null, whatever \<open>ico\<close> asks; and the \<open>rectangular\<close> field is the
  rectangular logo of the decoded image. Both revisions of \<open>processLogo\<close> agree on this.
\<close>

theorem processLogo_ico_requires_square:
  "(processLogo file options = Inr res \<longrightarrow>
      (ico res \<noteq> None \<longrightarrow>
         or_default True (opt_ico options) \<and> or_default True (opt_square options)) \<and>
      (\<not> or_default True (opt_square options) \<longrightarrow> square res = None \<and> ico res = None) \<and>
      (\<exists>img. file = Decoded img \<and>
         rectangular res =
           createRectangularLogo img (or_default (JNum (5 / 2)) (opt_aspectRatio options))
             (or_default (JNum 400) (opt_minWidth options))
             (or_default (JNum 160) (opt_minHeight options))
             (or_default False (opt_transparent options)))) \<and>
   (processLogo_v1 file options = Inr res' \<longrightarrow>
      (ico res' \<noteq> None \<longrightarrow>
         or_default True (opt_ico options) \<and> or_default True (opt_square options)) \<and>
      (\<not> or_default True (opt_square options) \<longrightarrow> square res' = None \<and> ico res' = None) \<and>
      (\<exists>img. file = Decoded img \<and>
         rectangular res' =
           createRectangularLogo_v1 img (or_default (JNum (5 / 2)) (opt_aspectRatio options))
             (or_default (JNum 400) (opt_minWidth options))
             (or_default (JNum 160) (opt_minHeight options))))"
  by (auto simp: processLogo_def processLogo_v1_def Let_def split: upload.splits)

theorem processLogo_ico_requires_square_witness:
  "\<exists>res res'.
     processLogo (Decoded \<lparr>img_width = 800, img_height = 200, img_data = []\<rparr>)
       \<lparr>opt_aspectRatio = None, opt_minWidth = None, opt_minHeight = None,
        opt_square = Some False, opt_ico = Some True, opt_transparent = None\<rparr> = Inr res \<and>
     processLogo_v1 (Decoded \<lparr>img_width = 800, img_height = 200, img_data = []\<rparr>)
       \<lparr>opt_aspectRatio = None, opt_minWidth = None, opt_minHeight = None,
        opt_square = Some False, opt_ico = Some True, opt_transparent = None\<rparr> = Inr res' \<and>
     square res = None \<and> ico res = None \<and> square res' = None \<and> ico res' = None \<and>
     cv_width (rectangular res) = JNum 800 \<and> cv_height (rectangular res) = JNum 320"
proof -
  let ?f = "Decoded \<lparr>img_width = 800, img_height = 200, img_data = []\<rparr>"
  let ?o = "\<lparr>opt_aspectRatio = None, opt_minWidth = None, opt_minHeight = None,
        opt_square = Some False, opt_ico = Some True, opt_transparent = None\<rparr>"
  obtain res where r: "processLogo ?f ?o = Inr res"
    by (simp add: processLogo_def Let_def)
  obtain res' where r': "processLogo_v1 ?f ?o = Inr res'"
    by (simp add: processLogo_v1_def Let_def)
  have w: "cv_width (createRectangularLogo \<lparr>img_width = 800, img_height = 200, img_data = []\<rparr>
             (JNum (5 / 2)) (JNum 400) (JNum 160) False) = JNum 800 \<and>
           cv_height (createRectangularLogo \<lparr>img_width = 800, img_height = 200, img_data = []\<rparr>
             (JNum (5 / 2)) (JNum 400) (JNum 160) False) = JNum 320"
    by (simp add: logo_defs)
  from processLogo_ico_requires_square [of ?f ?o res res'] r r' w
  show ?thesis by (simp add: or_default_def)
qed

section \<open>Favicon\<close>








section \<open>Colour keying\<close>







section \<open>Containment of the source\<close>

text \<open>
  Each ratio fit establishes \<open>covers\<close>, each enforcement of the minimums keeps it, and
  the snapping to 5:2 only enlarges the canvas. For the first revision of the
  rectangular logo the sides are integers that rounding to nearest cannot take below
  the source.
\<close>

lemma ceiling_div_covers:
  fixes x \<rho> :: rat
  assumes "0 < \<rho>"
  shows "x \<le> of_int \<lceil>x / \<rho>\<rceil> * \<rho>"
proof -
  have "x / \<rho> \<le> of_int \<lceil>x / \<rho>\<rceil>" by simp
  then show ?thesis using assms by (simp only: pos_divide_le_eq)
qed

lemma rect_base_covers:
  assumes "0 < w" and "0 < h" and "0 < ar"
  shows "\<exists>W H. rect_base (JNum w) (JNum h) (JNum ar) = (JNum W, JNum H) \<and> covers w h ar W H"
proof (cases "ar < w / h")
  case True
  then have lt: "h * ar < w" using assms by (simp add: field_simps)
  then have "h < w / ar" using assms by (simp add: field_simps)
  also have "\<dots> \<le> of_int \<lceil>w / ar\<rceil>" by simp
  finally have "h \<le> of_int \<lceil>w / ar\<rceil>" by simp
  then have "covers w h ar w (of_int \<lceil>w / ar\<rceil>)"
    using lt ceiling_div_covers [OF assms(3), of w] by (simp add: covers_def)
  then show ?thesis using True assms by (simp add: rect_base_def js_gt_def Let_def)
next
  case False
  then have le: "w \<le> h * ar" using assms by (simp add: field_simps)
  have "h * ar \<le> of_int \<lceil>h * ar\<rceil>" by simp
  with le have "w \<le> of_int \<lceil>h * ar\<rceil>" by linarith
  then have "covers w h ar (of_int \<lceil>h * ar\<rceil>) h"
    using le by (simp add: covers_def)
  then show ?thesis using False assms by (simp add: rect_base_def js_gt_def Let_def)
qed

lemma covers_width_step:
  assumes "covers w h ar W0 H0" and "0 < ar" and "W0 < mw"
  shows "covers w h ar mw (of_int \<lceil>mw / ar\<rceil>)"
proof -
  from assms have "h * ar < mw" "w \<le> mw" by (simp_all add: covers_def)
  then have "h < mw / ar" using assms(2) by (simp add: field_simps)
  also have "\<dots> \<le> of_int \<lceil>mw / ar\<rceil>" by simp
  finally have "h \<le> of_int \<lceil>mw / ar\<rceil>" by simp
  moreover have "mw \<le> of_int \<lceil>mw / ar\<rceil> * ar" by (rule ceiling_div_covers [OF assms(2)])
  ultimately show ?thesis using \<open>h * ar < mw\<close> \<open>w \<le> mw\<close> by (simp add: covers_def)
qed

lemma covers_height_step:
  assumes "covers w h ar W1 H1" and "0 < ar" and "H1 < mh"
  shows "covers w h ar (of_int \<lceil>mh * ar\<rceil>) mh"
proof -
  from assms have "H1 * ar < mh * ar" by simp
  moreover from assms have "w \<le> H1 * ar" "h \<le> H1" by (simp_all add: covers_def)
  ultimately have "w \<le> mh * ar" "h \<le> mh" using assms(3) by linarith+
  moreover have "mh * ar \<le> of_int \<lceil>mh * ar\<rceil>" by simp
  moreover have "h * ar \<le> mh * ar" using \<open>h \<le> mh\<close> assms(2) by simp
  ultimately show ?thesis unfolding covers_def by (intro conjI) linarith+
qed

lemma rect_min_covers:
  assumes "covers w h ar W0 H0" and "0 < ar"
  shows "\<exists>W H. rect_min (JNum W0) (JNum H0) (JNum ar) (JNum mw) (JNum mh) = (JNum W, JNum H) \<and>
           covers w h ar W H"
proof -
  have ar: "ar \<noteq> 0" using assms by simp
  obtain W1 H1 where s1: "(if W0 < mw then (JNum mw, js_ceil (js_div (JNum mw) (JNum ar)))
      else (JNum W0, JNum H0)) = (JNum W1, JNum H1)" and c1: "covers w h ar W1 H1"
    using covers_width_step [OF assms] assms(1) ar by (cases "W0 < mw") simp_all
  obtain W2 H2 where s2: "(if H1 < mh then (js_ceil (js_mul (JNum mh) (JNum ar)), JNum mh)
      else (JNum W1, JNum H1)) = (JNum W2, JNum H2)" and c2: "covers w h ar W2 H2"
    using covers_height_step [OF c1 assms(2)] c1 by (cases "H1 < mh") simp_all
  show ?thesis
  proof (cases "W0 < mw \<or> H0 < mh")
    case True
    then have "rect_min (JNum W0) (JNum H0) (JNum ar) (JNum mw) (JNum mh) = (JNum W2, JNum H2)"
      using s1 s2 by (simp add: rect_min_def)
    with c2 show ?thesis by blast
  next
    case False
    then have "rect_min (JNum W0) (JNum H0) (JNum ar) (JNum mw) (JNum mh) = (JNum W0, JNum H0)"
      by (simp add: rect_min_def)
    with assms(1) show ?thesis by blast
  qed
qed

lemma rect_snap_pos:
  assumes "0 < W0"
  shows "rect_snap (JNum W0) (JNum H0) (JNum ar) =
           (if ar = 5 / 2 then (jint (\<lceil>W0 / 5\<rceil> * 5), jint (2 * \<lceil>W0 / 5\<rceil>))
            else (JNum W0, JNum H0))"
proof (cases "ar = 5 / 2")
  case False
  then show ?thesis by (simp add: rect_snap_def)
next
  case True
  define k where "k = \<lceil>W0 / 5\<rceil>"
  have k: "0 < k" using assms by (simp add: k_def)
  have r1: "\<lfloor>(of_int k :: rat) * 5 + 1 / 2\<rfloor> = k * 5"
    by (rule floor_unique) simp_all
  have r2: "\<lfloor>(of_int k :: rat) * 2 + 1 / 2\<rfloor> = k * 2"
    by (rule floor_unique) simp_all
  have q: "(of_int k :: rat) * 5 / (of_int k * 2) = 5 / 2" using k by simp
  show ?thesis
    using True k r1 r2 q
    by (simp add: rect_snap_def Let_def k_def [symmetric] mult.commute)
qed








lemma headshot_min_shape:
  assumes "0 < W0" and "0 < H0" and "0 < n" and "0 < d"
    and "(W1, H1) = (if mh / H0 < mw / W0 then (mw, of_int \<lceil>mw * d / n\<rceil>)
                      else (of_int \<lceil>mh * n / d\<rceil>, mh))"
    and "0 < max H1 mh"
  shows "headshot_min (JNum W0) (JNum H0) (JNum mw) (JNum mh) (JNum n, JNum d) =
           (if 1 / 10000 < \<bar>max W1 mw / max H1 mh - n / d\<bar>
            then (if js_gt (js_div (JNum (max W1 mw)) (JNum mw)) (js_div (JNum (max H1 mh)) (JNum mh))
                  then (jint \<lceil>max H1 mh * (n / d)\<rceil>, JNum (max H1 mh))
                  else (JNum (max W1 mw), jint \<lceil>max W1 mw / (n / d)\<rceil>))
            else (JNum (max W1 mw), JNum (max H1 mh)))"
proof -
  have s1: "(if js_gt (js_div (JNum mw) (JNum W0)) (js_div (JNum mh) (JNum H0))
             then (JNum mw, js_ceil (js_div (js_mul (JNum mw) (JNum d)) (JNum n)))
             else (js_ceil (js_div (js_mul (JNum mh) (JNum n)) (JNum d)), JNum mh)) = (JNum W1, JNum H1)"
    using assms(1-5) by (simp add: js_gt_def split: if_splits)
  have s2: "(if js_lt (JNum W1) (JNum mw) then JNum mw else JNum W1) = JNum (max W1 mw)"
    "(if js_lt (JNum H1) (JNum mh) then JNum mh else JNum H1) = JNum (max H1 mh)"
    by (simp_all add: max_def)
  have s3: "js_div (JNum (max W1 mw)) (JNum (max H1 mh)) = JNum (max W1 mw / max H1 mh)"
    using assms(6) by simp
  have s4: "js_div (JNum n) (JNum d) = JNum (n / d)" using assms by simp
  have s5: "js_gt (js_abs (js_sub (JNum (max W1 mw / max H1 mh)) (JNum (n / d)))) (JNum (1 / 10000))
            \<longleftrightarrow> 1 / 10000 < \<bar>max W1 mw / max H1 mh - n / d\<bar>"
    by (simp add: js_gt_def)
  have s6: "js_mul (JNum (max H1 mh)) (JNum (n / d)) = JNum (max H1 mh * (n / d))"
    "js_div (JNum (max W1 mw)) (JNum (n / d)) = JNum (max W1 mw / (n / d))"
    using assms by simp_all
  show ?thesis
    unfolding headshot_min_def Let_def fst_conv snd_conv s1 prod.case s2 s3 s4 s5 s6 js_ceil.simps
    by (rule refl)
qed






section \<open>Where the ratio is exact and the minimums are met\<close>

text \<open>
  The rectangular logo at the ratio 2.5 always ends on a canvas \<open>5k x 2k\<close>, and under
  the shipped headshot profile (73:100, 292x400) the minimum branch of \<open>createHeadshot\<close>
  always ends on 292x400. The inexact ratio of C1 and C7 belongs to the headshot path
  that skips the minimum branch, and the lost minimum of C2 to minimums that are not in
  the target ratio.
\<close>

lemma rect_fit_exact_ratio:
  assumes "0 < w" and "0 < h"
  shows "\<exists>k. 0 < k \<and>
           rect_fit (JNum w) (JNum h) (JNum (5 / 2)) (JNum mw) (JNum mh) = (jint (k * 5), jint (2 * k))"
proof -
  have ar: "(0 :: rat) < 5 / 2" by simp
  obtain W0 H0 where b: "rect_base (JNum w) (JNum h) (JNum (5 / 2)) = (JNum W0, JNum H0)"
    and c0: "covers w h (5 / 2) W0 H0"
    using rect_base_covers [OF assms ar] by blast
  obtain W1 H1 where m: "rect_min (JNum W0) (JNum H0) (JNum (5 / 2)) (JNum mw) (JNum mh) = (JNum W1, JNum H1)"
    and c1: "covers w h (5 / 2) W1 H1"
    using rect_min_covers [OF c0 ar] by blast
  from c1 have pos: "0 < W1" using assms(1) by (simp add: covers_def)
  then have "0 < \<lceil>W1 / 5\<rceil>" by simp
  moreover have "rect_fit (JNum w) (JNum h) (JNum (5 / 2)) (JNum mw) (JNum mh) =
      (jint (\<lceil>W1 / 5\<rceil> * 5), jint (2 * \<lceil>W1 / 5\<rceil>))"
    by (simp add: rect_fit_def b m rect_snap_pos [OF pos])
  ultimately show ?thesis by blast
qed

lemma headshot_min_shipped_profile:
  assumes "0 < W0" and "0 < H0"
  shows "headshot_min (JNum W0) (JNum H0) (JNum 292) (JNum 400) (JNum 73, JNum 100) =
           (JNum 292, JNum 400)"
proof -
  have n: "(0 :: rat) < 73" and d: "(0 :: rat) < 100" by simp_all
  have s1: "(292 :: rat, 400 :: rat) = (if 400 / H0 < 292 / W0
        then (292, of_int \<lceil>292 * 100 / 73 :: rat\<rceil>) else (of_int \<lceil>400 * 73 / 100 :: rat\<rceil>, 400))"
    by simp
  have "0 < max (400 :: rat) 400" by simp
  from headshot_min_shape [OF assms n d s1 this] show ?thesis by simp
qed

section \<open>Headshot: padding and scaling\<close>










section \<open>Input validation\<close>





end
